theory Spec2Isabelle
  imports Complex_Main
begin

section \<open>Python values, exceptions and arithmetic\<close>

text \<open>
  The module \<^verbatim>\<open>beta/phi_functions.py\<close> computes with four kinds of numbers: Python
  integers, Python floats, torch tensors and mpmath's \<^verbatim>\<open>mpf\<close>. A value carries its kind,
  because the code dispatches on it (\<^verbatim>\<open>type(c) in {float, torch.Tensor}\<close>) and because
  the kinds differ in what a division by zero does.

  Floating-point numbers are idealised: a finite float, tensor element or \<^verbatim>\<open>mpf\<close> is a
  real number and the operations on it are exact. Rounding, underflow, the precision
  setting \<^verbatim>\<open>mp.dps\<close> and overflow are therefore outside the model: neither the
  \<^verbatim>\<open>OverflowError\<close> of \<^verbatim>\<open>math.exp\<close>, of a float power and of the conversion of a large
  integer to a float, nor an overflow to infinity is represented. \<open>NonFin\<close> stands for an
  IEEE infinity or NaN, which a tensor division by zero produces; the model does not
  follow such a value further, and every arithmetic operation on it yields \<open>NonFin\<close>
  again. A tensor is a single-element tensor, the shape for which \<^verbatim>\<open>float(t)\<close> and
  \<^verbatim>\<open>math.exp(t)\<close> are defined.

  Consequently the model says what the code does only where no operation overflows and
  where the outcome does not depend on how a result is rounded. The theorems below
  are about exceptions, control flow and the cache, and about values that are exact
  (the integer 0, the float 0.0); where an argument could make the code overflow, a
  hypothesis bounds it. A value such as \<open>exp (- 1)\<close> in a closed example denotes the
  float the code computes for it, up to rounding.
\<close>

datatype exn = AssertionError | IndexError | TypeError | ValueError | ZeroDivisionError

datatype fl = Fin real | NonFin

datatype pyval = PyInt int | PyFloat fl | Tensor fl | Mpf fl

datatype kind = KInt | KFloat | KTensor | KMpf

definition and_then :: "exn + 'a \<Rightarrow> ('a \<Rightarrow> exn + 'b) \<Rightarrow> exn + 'b" where
  "and_then m f = (case m of Inl e \<Rightarrow> Inl e | Inr v \<Rightarrow> f v)"

fun lift1 :: "(real \<Rightarrow> real) \<Rightarrow> fl \<Rightarrow> fl" where
  "lift1 f (Fin x) = Fin (f x)"
| "lift1 f NonFin = NonFin"

fun lift2 :: "(real \<Rightarrow> real \<Rightarrow> real) \<Rightarrow> fl \<Rightarrow> fl \<Rightarrow> fl" where
  "lift2 f (Fin x) (Fin y) = Fin (f x y)"
| "lift2 f _ _ = NonFin"

fun kind_of :: "pyval \<Rightarrow> kind" where
  "kind_of (PyInt n) = KInt"
| "kind_of (PyFloat x) = KFloat"
| "kind_of (Tensor x) = KTensor"
| "kind_of (Mpf x) = KMpf"

fun num :: "pyval \<Rightarrow> fl" where
  "num (PyInt n) = Fin (of_int n)"
| "num (PyFloat x) = x"
| "num (Tensor x) = x"
| "num (Mpf x) = x"

text \<open>
  The kind of the result of a binary operator. torch and mpmath do not know each
  other's types: both operand orders end in \<^verbatim>\<open>NotImplemented\<close>, hence \<^verbatim>\<open>TypeError\<close>.
\<close>

fun join :: "kind \<Rightarrow> kind \<Rightarrow> kind option" where
  "join KMpf KTensor = None"
| "join KTensor KMpf = None"
| "join KMpf k = Some KMpf"
| "join k KMpf = Some KMpf"
| "join KTensor k = Some KTensor"
| "join k KTensor = Some KTensor"
| "join KFloat k = Some KFloat"
| "join k KFloat = Some KFloat"
| "join KInt KInt = Some KInt"

text \<open>A non-integer result of the given kind; true division of two integers is a float.\<close>

fun box :: "kind \<Rightarrow> fl \<Rightarrow> pyval" where
  "box KInt x = PyFloat x"
| "box KFloat x = PyFloat x"
| "box KTensor x = Tensor x"
| "box KMpf x = Mpf x"

text \<open>\<^verbatim>\<open>a + b\<close>, \<^verbatim>\<open>a - b\<close>, \<^verbatim>\<open>a * b\<close>: exact on two integers, promoted otherwise.\<close>

definition py_arith ::
  "(int \<Rightarrow> int \<Rightarrow> int) \<Rightarrow> (real \<Rightarrow> real \<Rightarrow> real) \<Rightarrow> pyval \<Rightarrow> pyval \<Rightarrow> exn + pyval" where
  "py_arith fi fr a b =
     (case (a, b) of
        (PyInt x, PyInt y) \<Rightarrow> Inr (PyInt (fi x y))
      | _ \<Rightarrow> (case join (kind_of a) (kind_of b) of
                None \<Rightarrow> Inl TypeError
              | Some k \<Rightarrow> Inr (box k (lift2 fr (num a) (num b)))))"

definition py_add :: "pyval \<Rightarrow> pyval \<Rightarrow> exn + pyval" where
  "py_add = py_arith (+) (+)"

definition py_sub :: "pyval \<Rightarrow> pyval \<Rightarrow> exn + pyval" where
  "py_sub = py_arith (-) (-)"

definition py_mul :: "pyval \<Rightarrow> pyval \<Rightarrow> exn + pyval" where
  "py_mul = py_arith (*) (*)"

text \<open>Unary minus keeps the kind.\<close>

fun py_neg :: "pyval \<Rightarrow> pyval" where
  "py_neg (PyInt n) = PyInt (- n)"
| "py_neg (PyFloat x) = PyFloat (lift1 uminus x)"
| "py_neg (Tensor x) = Tensor (lift1 uminus x)"
| "py_neg (Mpf x) = Mpf (lift1 uminus x)"

text \<open>
  \<^verbatim>\<open>a / b\<close>: Python integers and floats and mpmath raise \<^verbatim>\<open>ZeroDivisionError\<close> on a zero
  divisor; a tensor division follows IEEE 754 and yields an infinity or NaN.
\<close>

definition py_truediv :: "pyval \<Rightarrow> pyval \<Rightarrow> exn + pyval" where
  "py_truediv a b =
     (case join (kind_of a) (kind_of b) of
        None \<Rightarrow> Inl TypeError
      | Some k \<Rightarrow>
          if num b = Fin 0 then (if k = KTensor then Inr (Tensor NonFin) else Inl ZeroDivisionError)
          else Inr (box k (lift2 (/) (num a) (num b))))"

text \<open>
  \<^verbatim>\<open>a ** n\<close> for an integer exponent. An integer to a negative power is a float; zero to
  a negative power raises, except for a tensor, where it is infinite.
\<close>

fun py_pow :: "pyval \<Rightarrow> int \<Rightarrow> exn + pyval" where
  "py_pow (PyInt b) n =
     (if 0 \<le> n then Inr (PyInt (b ^ nat n))
      else if b = 0 then Inl ZeroDivisionError
      else Inr (PyFloat (Fin (of_int b powi n))))"
| "py_pow (PyFloat x) n =
     (if n < 0 \<and> x = Fin 0 then Inl ZeroDivisionError
      else Inr (PyFloat (lift1 (\<lambda>r. r powi n) x)))"
| "py_pow (Tensor x) n =
     (if n < 0 \<and> x = Fin 0 then Inr (Tensor NonFin)
      else Inr (Tensor (lift1 (\<lambda>r. r powi n) x)))"
| "py_pow (Mpf x) n =
     (if n < 0 \<and> x = Fin 0 then Inl ZeroDivisionError
      else Inr (Mpf (lift1 (\<lambda>r. r powi n) x)))"

text \<open>\<^verbatim>\<open>float(x)\<close>, \<^verbatim>\<open>math.exp(x)\<close>, \<^verbatim>\<open>t.exp()\<close> and mpmath's \<^verbatim>\<open>exp(z)\<close>.\<close>

definition py_float :: "pyval \<Rightarrow> pyval" where
  "py_float x = PyFloat (num x)"

definition math_exp :: "pyval \<Rightarrow> pyval" where
  "math_exp x = PyFloat (lift1 exp (num x))"

definition tensor_exp :: "pyval \<Rightarrow> pyval" where
  "tensor_exp x = Tensor (lift1 exp (num x))"

definition mp_exp :: "pyval \<Rightarrow> pyval" where
  "mp_exp x = Mpf (lift1 exp (num x))"

text \<open>
  \<^verbatim>\<open>mpf(x)\<close> converts integers, floats and \<^verbatim>\<open>mpf\<close>s, and raises \<^verbatim>\<open>TypeError\<close> for
  anything else, a tensor included.
\<close>

fun py_mpf :: "pyval \<Rightarrow> exn + pyval" where
  "py_mpf (PyInt n) = Inr (Mpf (Fin (of_int n)))"
| "py_mpf (PyFloat x) = Inr (Mpf x)"
| "py_mpf (Mpf x) = Inr (Mpf x)"
| "py_mpf (Tensor x) = Inl TypeError"

text \<open>\<^verbatim>\<open>c == 0\<close> in a condition, and \<^verbatim>\<open>type(c) in {float, torch.Tensor}\<close>.\<close>

definition is_zero :: "pyval \<Rightarrow> bool" where
  "is_zero c = (num c = Fin 0)"

definition float_or_tensor :: "pyval \<Rightarrow> bool" where
  "float_or_tensor c = (kind_of c = KFloat \<or> kind_of c = KTensor)"

text \<open>\<^verbatim>\<open>xs[i]\<close> on a list: a negative index counts from the end.\<close>

definition getitem :: "'a list \<Rightarrow> int \<Rightarrow> exn + 'a" where
  "getitem xs i =
     (if 0 \<le> i \<and> i < int (length xs) then Inr (xs ! nat i)
      else if i < 0 \<and> 0 \<le> int (length xs) + i then Inr (xs ! nat (int (length xs) + i))
      else Inl IndexError)"

section \<open>The formulas\<close>

text \<open>\<^verbatim>\<open>_gamma(n)\<close>: \<^verbatim>\<open>math.factorial\<close> raises \<^verbatim>\<open>ValueError\<close> for a negative argument.\<close>

definition priv_gamma :: "int \<Rightarrow> exn + int" where
  "priv_gamma n = (if n - 1 < 0 then Inl ValueError else Inr (fact (nat (n - 1))))"

text \<open>
  \<^verbatim>\<open>_incomplete_gamma(s, x, gamma_s=None)\<close>. The loop \<^verbatim>\<open>for k in range(s)\<close> is a fold
  over \<open>[0..<nat s]\<close>, empty for \<open>s \<le> 0\<close>; \<open>sum_\<close> starts as the integer 0.
\<close>

definition incomplete_gamma_step :: "pyval \<Rightarrow> nat \<Rightarrow> exn + pyval \<Rightarrow> exn + pyval" where
  "incomplete_gamma_step x k acc =
     and_then acc (\<lambda>sum_acc.
     and_then (py_pow x (int k)) (\<lambda>numerator.
     and_then (py_truediv numerator (PyInt (fact k))) (\<lambda>quotient.
     py_add sum_acc quotient)))"

definition priv_incomplete_gamma :: "int \<Rightarrow> pyval \<Rightarrow> int option \<Rightarrow> exn + pyval" where
  "priv_incomplete_gamma s x gamma_s =
     and_then (case gamma_s of None \<Rightarrow> priv_gamma s | Some g \<Rightarrow> Inr g) (\<lambda>gamma_v.
     and_then (fold (incomplete_gamma_step x) [0..<nat s] (Inr (PyInt 0))) (\<lambda>sum_acc.
     and_then (py_mul sum_acc (math_exp (py_neg x))) (\<lambda>t.
     py_mul t (PyInt gamma_v))))"

text \<open>
  \<^verbatim>\<open>phi(j, neg_h)\<close>, the gamma-ratio formula. \<^verbatim>\<open>assert j > 0\<close> is checked first
  (assertions enabled, Python's default).
\<close>

definition phi :: "int \<Rightarrow> pyval \<Rightarrow> exn + pyval" where
  "phi j neg_h =
     (if \<not> 0 < j then Inl AssertionError
      else
        and_then (priv_gamma j) (\<lambda>gamma_v.
        and_then (priv_incomplete_gamma j neg_h (Some gamma_v)) (\<lambda>incomp_gamma.
        and_then (py_pow neg_h (- j)) (\<lambda>p.
        and_then (py_mul (math_exp neg_h) p) (\<lambda>ep.
        and_then (py_truediv incomp_gamma (PyInt gamma_v)) (\<lambda>q.
        and_then (py_sub (PyInt 1) q) (\<lambda>d.
        py_mul ep d)))))))"

text \<open>
  \<^verbatim>\<open>_phi(j, neg_h)\<close>, the remainder formula on tensors: \<^verbatim>\<open>torch.zeros_like\<close> accepts a
  tensor only. There is no check of \<open>j\<close>.
\<close>

definition remainder_step :: "pyval \<Rightarrow> nat \<Rightarrow> exn + pyval \<Rightarrow> exn + pyval" where
  "remainder_step z k acc =
     and_then acc (\<lambda>remainder.
     and_then (py_pow z (int k)) (\<lambda>p.
     and_then (py_truediv p (PyInt (fact k))) (\<lambda>q.
     py_add remainder q)))"

definition priv_phi :: "int \<Rightarrow> pyval \<Rightarrow> exn + pyval" where
  "priv_phi j neg_h =
     (case neg_h of
        Tensor x \<Rightarrow>
          and_then (fold (remainder_step neg_h) [0..<nat j] (Inr (Tensor (Fin 0)))) (\<lambda>remainder.
          and_then (py_sub (tensor_exp neg_h) remainder) (\<lambda>d.
          and_then (py_pow neg_h j) (\<lambda>p.
          py_truediv d p)))
      | _ \<Rightarrow> Inl TypeError)"


text \<open>
  \<^verbatim>\<open>phi_mpmath_series(j, neg_h)\<close>: the same series on \<^verbatim>\<open>mpf(float(neg_h))\<close>, with
  mpmath's \<^verbatim>\<open>factorial\<close> and \<^verbatim>\<open>exp\<close>; the result goes back through \<^verbatim>\<open>float\<close>.
\<close>

definition series_step :: "pyval \<Rightarrow> nat \<Rightarrow> exn + pyval \<Rightarrow> exn + pyval" where
  "series_step z k acc =
     and_then acc (\<lambda>S.
     and_then (py_pow z (int k)) (\<lambda>p.
     and_then (py_truediv p (Mpf (Fin (fact k)))) (\<lambda>q.
     py_add S q)))"

definition phi_mpmath_series :: "int \<Rightarrow> pyval \<Rightarrow> exn + pyval" where
  "phi_mpmath_series j neg_h =
     and_then (py_mpf (py_float neg_h)) (\<lambda>z.
     and_then (fold (series_step z) [0..<nat j] (Inr (Mpf (Fin 0)))) (\<lambda>S.
     and_then (py_sub (mp_exp z) S) (\<lambda>d.
     and_then (py_pow z j) (\<lambda>p.
     and_then (py_truediv d p) (\<lambda>phi_val.
     Inr (py_float phi_val))))))"

section \<open>The memoising evaluator\<close>

text \<open>
  An instance of class \<^verbatim>\<open>Phi\<close>: its attributes \<^verbatim>\<open>h\<close>, \<^verbatim>\<open>c\<close>, \<^verbatim>\<open>cache\<close> and \<^verbatim>\<open>phi_f\<close>.
  The attribute \<^verbatim>\<open>phi_f\<close> holds a function, as in the source.
\<close>

record Phi =
  self_h :: pyval
  self_c :: "pyval list"
  self_cache :: "int \<times> int \<rightharpoonup> pyval"
  self_phi_f :: "int \<Rightarrow> pyval \<Rightarrow> exn + pyval"

text \<open>The comprehension \<^verbatim>\<open>[mpf(c_val) for c_val in c]\<close> stops at the first exception.\<close>

fun mpf_each :: "pyval list \<Rightarrow> exn + pyval list" where
  "mpf_each [] = Inr []"
| "mpf_each (c_val # cs) =
     and_then (py_mpf c_val) (\<lambda>m. and_then (mpf_each cs) (\<lambda>ms. Inr (m # ms)))"

text \<open>\<^verbatim>\<open>Phi.__init__(h, c, analytic_solution=False)\<close>; an exception leaves no instance.\<close>

definition Phi_init :: "pyval \<Rightarrow> pyval list \<Rightarrow> bool \<Rightarrow> exn + Phi" where
  "Phi_init h c analytic_solution =
     (if analytic_solution then
        and_then (py_mpf (py_float h)) (\<lambda>h_mp.
        and_then (mpf_each c) (\<lambda>c_mp.
        Inr \<lparr>self_h = h_mp, self_c = c_mp, self_cache = Map.empty,
             self_phi_f = phi_mpmath_series\<rparr>))
      else Inr \<lparr>self_h = h, self_c = c, self_cache = Map.empty, self_phi_f = phi\<rparr>)"

text \<open>
  \<^verbatim>\<open>Phi.__call__(j, i=-1)\<close> returns the outcome and the instance after the call. An
  exception leaves before the assignment to the cache. \<open>Phi_compute\<close> is the part of
  the method after the coefficient \<open>c\<close> has been resolved.
\<close>

definition Phi_compute :: "Phi \<Rightarrow> int \<Rightarrow> int \<Rightarrow> pyval \<Rightarrow> (exn + pyval) \<times> Phi" where
  "Phi_compute self j i c =
     (case (if j = 0 \<and> float_or_tensor c then
              and_then (py_mul (py_neg (self_h self)) c) (\<lambda>x. Inr (math_exp (py_float x)))
            else
              and_then (py_mul (py_neg (self_h self)) c) (self_phi_f self j)) of
        Inl e \<Rightarrow> (Inl e, self)
      | Inr result \<Rightarrow>
          (Inr result, self\<lparr>self_cache := (self_cache self)((j, i) \<mapsto> result)\<rparr>))"

definition Phi_call :: "Phi \<Rightarrow> int \<Rightarrow> int \<Rightarrow> (exn + pyval) \<times> Phi" where
  "Phi_call self j i =
     (case self_cache self (j, i) of
        Some v \<Rightarrow> (Inr v, self)
      | None \<Rightarrow>
          if i < 0 then Phi_compute self j i (PyInt 1)
          else
            (case getitem (self_c self) (i - 1) of
               Inl e \<Rightarrow> (Inl e, self)
             | Inr c \<Rightarrow>
                 if is_zero c then
                   (Inr (PyInt 0), self\<lparr>self_cache := (self_cache self)((j, i) \<mapsto> PyInt 0)\<rparr>)
                 else Phi_compute self j i c))"

definition Phi_call_default :: "Phi \<Rightarrow> int \<Rightarrow> (exn + pyval) \<times> Phi" where
  "Phi_call_default self j = Phi_call self j (- 1)"

text \<open>
  \<open>evaluator h c analytic_solution self\<close>: \<open>self\<close> is an instance constructed by
  \<^verbatim>\<open>Phi(h, c, analytic_solution)\<close> and then called any number of times, with any
  arguments, whether the calls returned or raised.
\<close>

inductive evaluator :: "pyval \<Rightarrow> pyval list \<Rightarrow> bool \<Rightarrow> Phi \<Rightarrow> bool" where
  constructed: "Phi_init h c analytic_solution = Inr self \<Longrightarrow> evaluator h c analytic_solution self"
| called: "evaluator h c analytic_solution self \<Longrightarrow>
           evaluator h c analytic_solution (snd (Phi_call self j i))"

section \<open>Auxiliary facts\<close>

lemma and_then_Inl [simp]: "and_then (Inl e) f = Inl e"
  by (simp add: and_then_def)

lemma and_then_Inr [simp]: "and_then (Inr v) f = f v"
  by (simp add: and_then_def)

lemmas py_defs = py_arith_def py_add_def py_sub_def py_mul_def py_truediv_def
  py_float_def math_exp_def tensor_exp_def mp_exp_def

section \<open>Claims about the formulas\<close>

text \<open>
  C3 (amended). Of the three implementations only \<^verbatim>\<open>phi\<close> rejects an order
  \<open>j \<le> 0\<close> at entry: it raises \<^verbatim>\<open>AssertionError\<close> for every argument. \<^verbatim>\<open>_phi\<close> and
  \<^verbatim>\<open>phi_mpmath_series\<close> do not check \<open>j\<close>: called with \<open>j = 0\<close> their sum is empty and
  they return a result instead of raising, \<^verbatim>\<open>phi_mpmath_series\<close> a float for every
  float, tensor or \<^verbatim>\<open>mpf\<close> argument and \<^verbatim>\<open>_phi\<close> a tensor for every tensor argument.
\<close>

theorem order_check_only_in_phi:
  assumes "j \<le> 0"
  shows "phi j neg_h = Inl AssertionError \<and>
         (kind_of z \<noteq> KInt \<longrightarrow> (\<exists>v. phi_mpmath_series 0 z = Inr (PyFloat v))) \<and>
         (\<exists>v. priv_phi 0 (Tensor x) = Inr (Tensor v))"
proof (intro conjI impI)
  show "phi j neg_h = Inl AssertionError"
    using assms by (simp add: phi_def)
next
  assume "kind_of z \<noteq> KInt"
  then show "\<exists>v. phi_mpmath_series 0 z = Inr (PyFloat v)"
    by (cases z; cases "num z") (simp_all add: phi_mpmath_series_def py_defs)
next
  show "\<exists>v. priv_phi 0 (Tensor x) = Inr (Tensor v)"
    by (cases x) (simp_all add: priv_phi_def py_defs)
qed

theorem order_check_only_in_phi_witness:
  "phi (- 1) (PyFloat (Fin 1)) = Inl AssertionError \<and>
   (\<exists>v. phi_mpmath_series 0 (Tensor (Fin 1)) = Inr (PyFloat v)) \<and>
   (\<exists>v. priv_phi 0 (Tensor (Fin 1)) = Inr (Tensor v))"
  using order_check_only_in_phi [of "- 1" "PyFloat (Fin 1)" "Tensor (Fin 1)" "Fin 1"] by simp

text \<open>
  C3 as stated fails: \<^verbatim>\<open>phi_mpmath_series(0, 1.0)\<close> returns \<open>e\<close> instead of raising.
\<close>

theorem series_accepts_order_zero:
  "phi_mpmath_series 0 (PyFloat (Fin 1)) = Inr (PyFloat (Fin (exp 1)))"
  by (simp add: phi_mpmath_series_def py_defs)




text \<open>
  C9 (amended). For every \<open>s < 1\<close> and every \<open>x\<close>, \<^verbatim>\<open>_incomplete_gamma(s, x)\<close> fails
  when \<^verbatim>\<open>gamma_s\<close> is not supplied, with the \<^verbatim>\<open>ValueError\<close> of \<^verbatim>\<open>math.factorial\<close>. When
  \<^verbatim>\<open>gamma_s\<close> is supplied nothing checks \<open>s\<close>: the sum is empty and the call returns
  \<open>0.0\<close>, for \<open>x\<close> of magnitude at most 700, where \<^verbatim>\<open>math.exp(-x)\<close> does not overflow,
  and \<^verbatim>\<open>gamma_s\<close> of magnitude at most \<open>10 ^ 300\<close>, which a float can hold.
\<close>

theorem incomplete_gamma_order_below_one:
  assumes "s < 1"
  shows "priv_incomplete_gamma s x None = Inl ValueError \<and>
         (num x = Fin r \<and> \<bar>r\<bar> \<le> 700 \<and> \<bar>g\<bar> \<le> 10 ^ 300 \<longrightarrow>
            priv_incomplete_gamma s x (Some g) = Inr (PyFloat (Fin 0)))"
  using assms
  by (cases x) (auto simp add: priv_incomplete_gamma_def priv_gamma_def py_defs)

theorem incomplete_gamma_order_below_one_witness:
  "priv_incomplete_gamma 0 (Tensor (Fin 2)) None = Inl ValueError \<and>
   priv_incomplete_gamma 0 (Tensor (Fin 2)) (Some 6) = Inr (PyFloat (Fin 0))"
  using incomplete_gamma_order_below_one [of 0 "Tensor (Fin 2)" 2 6] by simp

text \<open>
  C9 as stated fails: \<^verbatim>\<open>_incomplete_gamma(0, 1.0, 1)\<close> returns \<open>0.0\<close>.
\<close>

theorem incomplete_gamma_supplied_gamma_returns:
  "priv_incomplete_gamma 0 (PyFloat (Fin 1)) (Some 1) = Inr (PyFloat (Fin 0))"
  by (simp add: priv_incomplete_gamma_def py_defs)

section \<open>The evaluator: cache and frame\<close>

lemma and_then_eq_Inr:
  "and_then m f = Inr y \<longleftrightarrow> (\<exists>x. m = Inr x \<and> f x = Inr y)"
  by (cases m) simp_all

lemma Phi_call_cached:
  "self_cache self (j, i) = Some v \<Longrightarrow> Phi_call self j i = (Inr v, self)"
  by (simp add: Phi_call_def)

lemma Phi_compute_frame:
  assumes "Phi_compute self j i c = (r, self')"
  shows "case r of Inl e \<Rightarrow> self' = self
         | Inr v \<Rightarrow> self' = self\<lparr>self_cache := (self_cache self)((j, i) \<mapsto> v)\<rparr>"
  using assms by (auto simp add: Phi_compute_def split: sum.splits if_splits)

lemma Phi_call_frame:
  assumes "Phi_call self j i = (r, self')"
  shows "case r of Inl e \<Rightarrow> self' = self
         | Inr v \<Rightarrow> self' = self\<lparr>self_cache := (self_cache self)((j, i) \<mapsto> v)\<rparr>"
proof (cases "self_cache self (j, i)")
  case (Some v)
  then have "(self_cache self)((j, i) \<mapsto> v) = self_cache self"
    by (simp add: map_upd_triv)
  with Some assms show ?thesis
    by (auto simp add: Phi_call_cached)
next
  case None
  with assms show ?thesis
    by (auto simp add: Phi_call_def split: sum.splits if_splits dest: Phi_compute_frame)
qed

lemma Phi_call_success_cached:
  assumes "Phi_call self j i = (Inr v, self')"
  shows "self_cache self' (j, i) = Some v"
  using Phi_call_frame [OF assms] by simp

lemma fst_Phi_compute_cache:
  "fst (Phi_compute (self\<lparr>self_cache := m\<rparr>) j i c) = fst (Phi_compute self j i c)"
  by (simp add: Phi_compute_def split: sum.splits)

lemma fst_Phi_call_miss:
  assumes "self_cache self (j, i) = None"
  shows "fst (Phi_call self j i) = fst (Phi_call (self\<lparr>self_cache := Map.empty\<rparr>) j i)"
  using assms
  by (simp add: Phi_call_def fst_Phi_compute_cache split: sum.splits)

lemma snd_Phi_call_fields:
  "(snd (Phi_call self j i))\<lparr>self_cache := m\<rparr> = self\<lparr>self_cache := m\<rparr>"
proof -
  have "case fst (Phi_call self j i) of Inl e \<Rightarrow> snd (Phi_call self j i) = self
        | Inr v \<Rightarrow> snd (Phi_call self j i) = self\<lparr>self_cache := (self_cache self)((j, i) \<mapsto> v)\<rparr>"
    by (rule Phi_call_frame) simp
  then show ?thesis
    by (cases "fst (Phi_call self j i)") simp_all
qed

text \<open>Every cached value is the value that a call with an empty cache computes.\<close>

lemma evaluator_cache_valid:
  assumes "evaluator h c a self" and "self_cache self (j, i) = Some v"
  shows "fst (Phi_call (self\<lparr>self_cache := Map.empty\<rparr>) j i) = Inr v"
  using assms
proof (induction arbitrary: j i v rule: evaluator.induct)
  case (constructed h c a self)
  then show ?case
    by (auto simp add: Phi_init_def and_then_eq_Inr split: if_splits)
next
  case (called h c a self j' i')
  let ?r = "fst (Phi_call self j' i')"
  let ?s = "snd (Phi_call self j' i')"
  have fields: "?s\<lparr>self_cache := Map.empty\<rparr> = self\<lparr>self_cache := Map.empty\<rparr>"
    by (rule snd_Phi_call_fields)
  have frame: "case ?r of Inl e \<Rightarrow> ?s = self
               | Inr w \<Rightarrow> ?s = self\<lparr>self_cache := (self_cache self)((j', i') \<mapsto> w)\<rparr>"
    by (rule Phi_call_frame) simp
  show ?case
  proof (cases ?r)
    case (Inl e)
    with frame called show ?thesis by simp
  next
    case (Inr w)
    with frame have s: "?s = self\<lparr>self_cache := (self_cache self)((j', i') \<mapsto> w)\<rparr>"
      by simp
    show ?thesis
    proof (cases "(j, i) = (j', i')")
      case False
      with s called.prems have "self_cache self (j, i) = Some v"
        by (metis Phi.select_convs(3) Phi.surjective Phi.update_convs(3) fun_upd_other)
      with called.IH fields show ?thesis by simp
    next
      case True
      with s called.prems have w: "w = v"
        by (metis Phi.select_convs(3) Phi.surjective Phi.update_convs(3) fun_upd_same option.inject)
      show ?thesis
      proof (cases "self_cache self (j', i')")
        case None
        from fst_Phi_call_miss [OF None] Inr w True fields show ?thesis by simp
      next
        case (Some u)
        with Inr have "u = w" by (simp add: Phi_call_cached)
        with Some called.IH w True fields show ?thesis by simp
      qed
    qed
  qed
qed

lemma evaluator_result:
  assumes "evaluator h c a self"
  shows "fst (Phi_call self j i) = fst (Phi_call (self\<lparr>self_cache := Map.empty\<rparr>) j i)"
proof (cases "self_cache self (j, i)")
  case None
  then show ?thesis by (rule fst_Phi_call_miss)
next
  case (Some v)
  with evaluator_cache_valid [OF assms Some] show ?thesis
    by (simp add: Phi_call_cached)
qed

text \<open>What a call computes when the key is not in the cache.\<close>

lemma getitem_in_range:
  "1 \<le> i \<Longrightarrow> i \<le> int (length xs) \<Longrightarrow> getitem xs (i - 1) = Inr (xs ! nat (i - 1))"
  by (simp add: getitem_def)

lemma getitem_beyond:
  "int (length xs) < i \<or> i = 0 \<and> xs = [] \<Longrightarrow> getitem xs (i - 1) = Inl IndexError"
  by (auto simp add: getitem_def)

lemma getitem_last:
  "xs \<noteq> [] \<Longrightarrow> getitem xs (- 1) = Inr (last xs)"
  by (cases xs rule: rev_cases) (simp_all add: getitem_def)

lemma miss_zero:
  assumes "self_cache s (j, i) = None" and "1 \<le> i" and "i \<le> int (length (self_c s))"
    and "is_zero (self_c s ! nat (i - 1))"
  shows "Phi_call s j i = (Inr (PyInt 0), s\<lparr>self_cache := (self_cache s)((j, i) \<mapsto> PyInt 0)\<rparr>)"
  using assms by (simp add: Phi_call_def getitem_in_range)

lemma miss_beyond:
  assumes "self_cache s (j, i) = None" and "int (length (self_c s)) < i \<or> i = 0 \<and> self_c s = []"
  shows "Phi_call s j i = (Inl IndexError, s)"
proof -
  from assms(2) have "\<not> i < 0" by auto
  with assms getitem_beyond [OF assms(2)] show ?thesis
    by (simp add: Phi_call_def)
qed

section \<open>Claims about the evaluator\<close>

text \<open>
  C1. The claim is that a call with \<open>j = 0\<close> returns \<open>exp (- h * c_val)\<close> for every
  evaluator and every index, the default \<open>i = -1\<close> included. The code does not do so:
  on the standard-precision evaluator \<^verbatim>\<open>Phi(1.0, [0.5])\<close> the call with \<open>j = 0\<close> and the
  default index resolves \<open>c\<close> to the integer literal 1, which is neither a float nor a
  tensor, so the special case for \<open>j = 0\<close> is skipped and \<^verbatim>\<open>phi(0, -1.0)\<close> raises
  \<^verbatim>\<open>AssertionError\<close>.
\<close>

theorem order_zero_default_index_raises:
  "fst (Phi_call_default (projr (Phi_init (PyFloat (Fin 1)) [PyFloat (Fin (1 / 2))] False)) 0) =
   Inl AssertionError"
  by (simp add: Phi_call_default_def Phi_init_def Phi_call_def Phi_compute_def
      float_or_tensor_def phi_def py_defs)

text \<open>
  The sibling paths return the exponential for the same product \<open>- h * c = - 1\<close>: the
  standard-precision evaluator with the float coefficient \<open>1.0\<close> at index 1, and the
  extended-precision evaluator with the default index.
\<close>

lemma order_zero_float_coefficient:
  "fst (Phi_call (projr (Phi_init (PyFloat (Fin 1)) [PyFloat (Fin 1)] False)) 0 1) =
   Inr (PyFloat (Fin (exp (- 1))))"
  by (simp add: Phi_init_def Phi_call_def Phi_compute_def getitem_def is_zero_def
      float_or_tensor_def py_defs)

lemma order_zero_extended_default_index:
  "fst (Phi_call_default (projr (Phi_init (PyFloat (Fin 1)) [PyFloat (Fin (1 / 2))] True)) 0) =
   Inr (PyFloat (Fin (exp (- 1))))"
  by (simp add: Phi_call_default_def Phi_init_def Phi_call_def Phi_compute_def
      float_or_tensor_def phi_mpmath_series_def py_defs)

text \<open>
  C2 (amended). On an evaluator, a call with an index greater than the length of \<open>c\<close>,
  or with \<open>i = 0\<close> when \<open>c\<close> is empty, fails with \<^verbatim>\<open>IndexError\<close> and leaves the
  evaluator as it was. With \<open>i = 0\<close> and a non-empty \<open>c\<close> the call does not fail on the
  index: \<^verbatim>\<open>c[-1]\<close> is the last coefficient, and an uncached call continues with it.
\<close>

theorem index_beyond_length:
  assumes "evaluator h c a self"
  shows "(int (length (self_c self)) < i \<or> i = 0 \<and> self_c self = [] \<longrightarrow>
            Phi_call self j i = (Inl IndexError, self)) \<and>
         (i = 0 \<and> self_c self \<noteq> [] \<and> self_cache self (j, i) = None \<longrightarrow>
            Phi_call self j i =
              (if is_zero (last (self_c self))
               then (Inr (PyInt 0), self\<lparr>self_cache := (self_cache self)((j, i) \<mapsto> PyInt 0)\<rparr>)
               else Phi_compute self j i (last (self_c self))))"
proof (intro conjI impI)
  assume out: "int (length (self_c self)) < i \<or> i = 0 \<and> self_c self = []"
  have "self_cache self (j, i) = None"
  proof (cases "self_cache self (j, i)")
    case (Some v)
    from evaluator_cache_valid [OF assms Some]
      miss_beyond [of "self\<lparr>self_cache := Map.empty\<rparr>" j i] out
    show ?thesis by simp
  qed simp
  then show "Phi_call self j i = (Inl IndexError, self)"
    using out by (rule miss_beyond)
next
  assume "i = 0 \<and> self_c self \<noteq> [] \<and> self_cache self (j, i) = None"
  then have "i = 0" and "self_c self \<noteq> []" and "self_cache self (j, 0) = None"
    by auto
  then show "Phi_call self j i =
      (if is_zero (last (self_c self))
       then (Inr (PyInt 0), self\<lparr>self_cache := (self_cache self)((j, i) \<mapsto> PyInt 0)\<rparr>)
       else Phi_compute self j i (last (self_c self)))"
    by (simp add: Phi_call_def getitem_last)
qed

theorem index_beyond_length_witness:
  "Phi_call \<lparr>self_h = PyFloat (Fin 1), self_c = [PyFloat (Fin 0)],
             self_cache = Map.empty, self_phi_f = phi\<rparr> 1 2 =
     (Inl IndexError,
      \<lparr>self_h = PyFloat (Fin 1), self_c = [PyFloat (Fin 0)],
       self_cache = Map.empty, self_phi_f = phi\<rparr>) \<and>
   Phi_call \<lparr>self_h = PyFloat (Fin 1), self_c = [PyFloat (Fin 0)],
             self_cache = Map.empty, self_phi_f = phi\<rparr> 1 0 =
     (Inr (PyInt 0),
      \<lparr>self_h = PyFloat (Fin 1), self_c = [PyFloat (Fin 0)],
       self_cache = [(1, 0) \<mapsto> PyInt 0], self_phi_f = phi\<rparr>)"
proof -
  have std: "evaluator (PyFloat (Fin 1)) [PyFloat (Fin 0)] False
      \<lparr>self_h = PyFloat (Fin 1), self_c = [PyFloat (Fin 0)],
       self_cache = Map.empty, self_phi_f = phi\<rparr>"
    by (rule evaluator.constructed) (simp add: Phi_init_def)
  from index_beyond_length [OF std, of 2 1] index_beyond_length [OF std, of 0 1]
  show ?thesis
    by (simp add: is_zero_def)
qed

text \<open>
  C2 as stated fails: on \<^verbatim>\<open>Phi(1.0, [0.5])\<close> the call with \<open>j = 0\<close> and \<open>i = 0\<close> returns
  \<open>exp (- 1 / 2)\<close>, computed from the last coefficient.
\<close>

theorem index_zero_wraps_to_last:
  "fst (Phi_call (projr (Phi_init (PyFloat (Fin 1)) [PyFloat (Fin (1 / 2))] False)) 0 0) =
   Inr (PyFloat (Fin (exp (- (1 / 2)))))"
  by (simp add: Phi_init_def Phi_call_def Phi_compute_def getitem_def is_zero_def
      float_or_tensor_def py_defs)

text \<open>
  C6. On an evaluator, for every order \<open>j\<close> and every index \<open>1 \<le> i \<le> len(c)\<close> whose
  coefficient \<open>c[i-1]\<close> equals 0, the call returns the integer 0, the cache holds 0
  under the key \<open>(j, i)\<close> afterwards, and the result is the same whatever function
  \<^verbatim>\<open>phi_f\<close> holds: no phi formula is evaluated.
\<close>

theorem zero_coefficient_returns_zero:
  assumes "evaluator h c a self" and "1 \<le> i" and "i \<le> int (length (self_c self))"
    and "is_zero (self_c self ! nat (i - 1))"
  shows "fst (Phi_call self j i) = Inr (PyInt 0) \<and>
         self_cache (snd (Phi_call self j i)) (j, i) = Some (PyInt 0) \<and>
         (\<forall>g. fst (Phi_call (self\<lparr>self_phi_f := g\<rparr>) j i) = Inr (PyInt 0))"
proof -
  have fresh: "fst (Phi_call (self\<lparr>self_cache := Map.empty\<rparr>) j i) = Inr (PyInt 0)"
    using assms(2,3,4) by (simp add: miss_zero)
  with evaluator_result [OF assms(1)] have res: "fst (Phi_call self j i) = Inr (PyInt 0)"
    by simp
  then have "Phi_call self j i = (Inr (PyInt 0), snd (Phi_call self j i))"
    by (metis prod.collapse)
  then have stored: "self_cache (snd (Phi_call self j i)) (j, i) = Some (PyInt 0)"
    by (rule Phi_call_success_cached)
  have probe: "fst (Phi_call (self\<lparr>self_phi_f := g\<rparr>) j i) = Inr (PyInt 0)" for g
  proof (cases "self_cache self (j, i)")
    case None
    with assms(2,3,4) show ?thesis by (simp add: miss_zero)
  next
    case (Some v)
    from evaluator_cache_valid [OF assms(1) Some] fresh have "v = PyInt 0" by simp
    with Some show ?thesis by (simp add: Phi_call_cached)
  qed
  from res stored probe show ?thesis by blast
qed

theorem zero_coefficient_returns_zero_witness:
  "fst (Phi_call \<lparr>self_h = PyFloat (Fin 1), self_c = [PyFloat (Fin (1 / 2)), PyFloat (Fin 0)],
                   self_cache = Map.empty, self_phi_f = phi\<rparr> 0 2) = Inr (PyInt 0) \<and>
   self_cache (snd (Phi_call \<lparr>self_h = PyFloat (Fin 1),
                     self_c = [PyFloat (Fin (1 / 2)), PyFloat (Fin 0)],
                     self_cache = Map.empty, self_phi_f = phi\<rparr> 0 2)) (0, 2) = Some (PyInt 0)"
proof -
  have std: "evaluator (PyFloat (Fin 1)) [PyFloat (Fin (1 / 2)), PyFloat (Fin 0)] False
      \<lparr>self_h = PyFloat (Fin 1), self_c = [PyFloat (Fin (1 / 2)), PyFloat (Fin 0)],
       self_cache = Map.empty, self_phi_f = phi\<rparr>"
    by (rule evaluator.constructed) (simp add: Phi_init_def)
  from zero_coefficient_returns_zero [OF std, of 2 0]
  show ?thesis
    by (simp add: is_zero_def)
qed

text \<open>
  C7. If a call with \<open>(j, i)\<close> returns \<open>v\<close> and leaves the evaluator in the state
  \<open>self\<close>, then a second call with \<open>(j, i)\<close> in that state returns \<open>v\<close> and leaves the
  state as it is, and does so whatever function \<^verbatim>\<open>phi_f\<close> holds by then: the phi
  function is not invoked again.
\<close>

theorem evaluate_idempotent:
  assumes "Phi_call self0 j i = (Inr v, self)"
  shows "Phi_call self j i = (Inr v, self) \<and>
         (\<forall>g. Phi_call (self\<lparr>self_phi_f := g\<rparr>) j i = (Inr v, self\<lparr>self_phi_f := g\<rparr>))"
  using Phi_call_success_cached [OF assms] by (simp add: Phi_call_cached)

theorem evaluate_idempotent_witness:
  "Phi_call \<lparr>self_h = PyFloat (Fin 1), self_c = [PyFloat (Fin (1 / 2))],
             self_cache = Map.empty, self_phi_f = phi\<rparr> 0 1 =
     (Inr (PyFloat (Fin (exp (- (1 / 2))))),
      \<lparr>self_h = PyFloat (Fin 1), self_c = [PyFloat (Fin (1 / 2))],
       self_cache = [(0, 1) \<mapsto> PyFloat (Fin (exp (- (1 / 2))))], self_phi_f = phi\<rparr>) \<and>
   Phi_call \<lparr>self_h = PyFloat (Fin 1), self_c = [PyFloat (Fin (1 / 2))],
             self_cache = [(0, 1) \<mapsto> PyFloat (Fin (exp (- (1 / 2))))], self_phi_f = phi\<rparr> 0 1 =
     (Inr (PyFloat (Fin (exp (- (1 / 2))))),
      \<lparr>self_h = PyFloat (Fin 1), self_c = [PyFloat (Fin (1 / 2))],
       self_cache = [(0, 1) \<mapsto> PyFloat (Fin (exp (- (1 / 2))))], self_phi_f = phi\<rparr>)"
proof -
  have first: "Phi_call \<lparr>self_h = PyFloat (Fin 1), self_c = [PyFloat (Fin (1 / 2))],
             self_cache = Map.empty, self_phi_f = phi\<rparr> 0 1 =
     (Inr (PyFloat (Fin (exp (- (1 / 2))))),
      \<lparr>self_h = PyFloat (Fin 1), self_c = [PyFloat (Fin (1 / 2))],
       self_cache = [(0, 1) \<mapsto> PyFloat (Fin (exp (- (1 / 2))))], self_phi_f = phi\<rparr>)"
    by (simp add: Phi_call_def Phi_compute_def getitem_def is_zero_def float_or_tensor_def py_defs)
  from evaluate_idempotent [OF first] first show ?thesis
    by blast
qed

text \<open>
  C10. Every call, whether it returns or raises, leaves \<open>h\<close>, \<open>c\<close>, \<^verbatim>\<open>phi_f\<close> and
  every cache entry other than the one for \<open>(j, i)\<close> unchanged. A call that raises
  leaves the whole instance unchanged; a call that returns \<open>v\<close> changes at most the
  cache entry for \<open>(j, i)\<close>, which is \<open>v\<close> afterwards.
\<close>

theorem evaluate_frame:
  assumes "Phi_call self j i = (r, self')"
  shows "self_h self' = self_h self \<and> self_c self' = self_c self \<and>
         self_phi_f self' = self_phi_f self \<and>
         (\<forall>k. k \<noteq> (j, i) \<longrightarrow> self_cache self' k = self_cache self k) \<and>
         (case r of
            Inl e \<Rightarrow> self' = self
          | Inr v \<Rightarrow> self' = self\<lparr>self_cache := (self_cache self)((j, i) \<mapsto> v)\<rparr>)"
  using Phi_call_frame [OF assms] by (cases r) simp_all

theorem evaluate_frame_witness:
  "Phi_call \<lparr>self_h = PyFloat (Fin 1), self_c = [PyFloat (Fin (1 / 2))],
             self_cache = [(1, 1) \<mapsto> PyInt 7], self_phi_f = phi\<rparr> 0 (- 1) =
     (Inl AssertionError,
      \<lparr>self_h = PyFloat (Fin 1), self_c = [PyFloat (Fin (1 / 2))],
       self_cache = [(1, 1) \<mapsto> PyInt 7], self_phi_f = phi\<rparr>) \<and>
   self_cache (snd (Phi_call \<lparr>self_h = PyFloat (Fin 1), self_c = [PyFloat (Fin (1 / 2))],
             self_cache = [(1, 1) \<mapsto> PyInt 7], self_phi_f = phi\<rparr> 0 1)) (1, 1) =
     Some (PyInt 7)"
proof -
  have fails: "Phi_call \<lparr>self_h = PyFloat (Fin 1), self_c = [PyFloat (Fin (1 / 2))],
             self_cache = [(1, 1) \<mapsto> PyInt 7], self_phi_f = phi\<rparr> 0 (- 1) =
     (Inl AssertionError,
      \<lparr>self_h = PyFloat (Fin 1), self_c = [PyFloat (Fin (1 / 2))],
       self_cache = [(1, 1) \<mapsto> PyInt 7], self_phi_f = phi\<rparr>)"
    by (simp add: Phi_call_def Phi_compute_def float_or_tensor_def phi_def py_defs)
  have "Phi_call \<lparr>self_h = PyFloat (Fin 1), self_c = [PyFloat (Fin (1 / 2))],
             self_cache = [(1, 1) \<mapsto> PyInt 7], self_phi_f = phi\<rparr> 0 1 =
     (fst (Phi_call \<lparr>self_h = PyFloat (Fin 1), self_c = [PyFloat (Fin (1 / 2))],
             self_cache = [(1, 1) \<mapsto> PyInt 7], self_phi_f = phi\<rparr> 0 1),
      snd (Phi_call \<lparr>self_h = PyFloat (Fin 1), self_c = [PyFloat (Fin (1 / 2))],
             self_cache = [(1, 1) \<mapsto> PyInt 7], self_phi_f = phi\<rparr> 0 1))"
    by simp
  from evaluate_frame [OF this] fails show ?thesis
    by simp
qed

end
